theory Spec2Isabelle
  imports Complex_Main
begin

section \<open>Numbers and typed arrays\<close>

text \<open>
  The JavaScript numbers of the terrain core are modelled as exact reals: no rounding, no
  Infinity and no NaN. Grid dimensions, cell coordinates and array indices are integers.
  A typed array (\<^verbatim>\<open>Float32Array\<close>, \<^verbatim>\<open>Int32Array\<close>) is a list. Reading a typed array
  outside its range yields \<^verbatim>\<open>undefined\<close> in JavaScript, which is \<open>None\<close> here; writing
  outside its range is silently dropped, here as in JavaScript.
\<close>

datatype js_error = TypeError | RangeError | NotANumber

text \<open>
  \<open>TypeError\<close> and \<open>RangeError\<close> are the exceptions JavaScript throws. \<open>NotANumber\<close> is
  not an exception: it marks the point where arithmetic on an \<^verbatim>\<open>undefined\<close> read would
  produce NaN and the computation leaves the real numbers, which is where the model stops.
\<close>

definition rd :: "'a list \<Rightarrow> int \<Rightarrow> 'a option" where
  "rd a i = (if 0 \<le> i \<and> i < int (length a) then Some (a ! nat i) else None)"

definition wr :: "'a list \<Rightarrow> int \<Rightarrow> 'a \<Rightarrow> 'a list" where
  "wr a i v = (if 0 \<le> i \<and> i < int (length a) then a[nat i := v] else a)"

definition add_at :: "real list \<Rightarrow> int \<Rightarrow> real \<Rightarrow> real list" where
  \<comment> \<open>\<^verbatim>\<open>a[i] += v\<close>\<close>
  "add_at a i v = (case rd a i of Some c \<Rightarrow> wr a i (c + v) | None \<Rightarrow> a)"

definition clamp_at :: "real list \<Rightarrow> int \<Rightarrow> real list" where
  \<comment> \<open>\<^verbatim>\<open>a[i] = Math.max(0, a[i])\<close>\<close>
  "clamp_at a i = (case rd a i of Some c \<Rightarrow> wr a i (max 0 c) | None \<Rightarrow> a)"

section \<open>ErosionSimulator\<close>

record erosion_params =
  inertia :: real
  friction :: real
  sedimentCapacityFactor :: real
  depositionRate :: real
  evaporationRate :: real
  minVolume :: real
  initialVolume :: real
  initialSpeed :: real
  maxDropletLifetime :: real
  slopeMapFactor :: real

definition defaultParams :: erosion_params where
  "defaultParams =
     \<lparr> inertia = 0.05, friction = 0.02, sedimentCapacityFactor = 4, depositionRate = 0.3,
       evaporationRate = 0.01, minVolume = 0.01, initialVolume = 1.0, initialSpeed = 1.0,
       maxDropletLifetime = 30, slopeMapFactor = 0.001 \<rparr>"

record droplet =
  d_x :: real
  d_y :: real
  d_dx :: real
  d_dy :: real
  speed :: real
  water :: real
  sediment :: real
  lifetime :: nat
  alive :: bool

text \<open>
  The fields \<open>droplets\<close> and \<open>dropletsActive\<close> do not exist (\<open>None\<close>) until
  \<open>resetDroplets\<close> has run.
\<close>

record simulator =
  width :: int
  height :: int
  heightMap :: "real list"
  params :: erosion_params
  droplets :: "droplet list option"
  dropletsActive :: "bool option"

text \<open>
  The constructor copies the heightmap and stores the parameters (given here already merged
  with the defaults). It has no \<^verbatim>\<open>throw\<close>: it completes normally on every input.
\<close>

definition ErosionSimulator ::
  "int \<Rightarrow> int \<Rightarrow> real list \<Rightarrow> erosion_params \<Rightarrow> js_error + simulator" where
  "ErosionSimulator w h hm p =
     Inr \<lparr> width = w, height = h, heightMap = hm, params = p,
           droplets = None, dropletsActive = None \<rparr>"

text \<open>
  \<open>createDroplet\<close> takes the two values \<open>rx\<close> and \<open>ry\<close> that \<^verbatim>\<open>Math.random()\<close> returns for
  the x and the y coordinate.
\<close>

definition createDroplet :: "simulator \<Rightarrow> real \<Rightarrow> real \<Rightarrow> droplet" where
  "createDroplet s rx ry =
     \<lparr> d_x = rx * (of_int (width s) - 2) + 1,
       d_y = ry * (of_int (height s) - 2) + 1,
       d_dx = 0, d_dy = 0,
       speed = initialSpeed (params s),
       water = initialVolume (params s),
       sediment = 0, lifetime = 0, alive = True \<rparr>"

text \<open>
  \<open>rnd i\<close> is the value of the \<open>i\<close>-th call of \<^verbatim>\<open>Math.random()\<close> made during
  \<open>resetDroplets\<close>; droplet \<open>i\<close> consumes the draws \<open>2 * i\<close> and \<open>2 * i + 1\<close>.
\<close>

definition resetDroplets :: "int \<Rightarrow> (nat \<Rightarrow> real) \<Rightarrow> simulator \<Rightarrow> simulator" where
  "resetDroplets numDroplets rnd s =
     s\<lparr> droplets := Some (map (\<lambda>i. createDroplet s (rnd (2 * i)) (rnd (2 * i + 1)))
                              [0 ..< nat numDroplets]),
         dropletsActive := Some True \<rparr>"

definition start ::
  "int \<Rightarrow> bool \<Rightarrow> real list option \<Rightarrow> (nat \<Rightarrow> real) \<Rightarrow> simulator \<Rightarrow> js_error + simulator" where
  "start numDroplets resetHeightmap initialHeightMap rnd s =
     Inr (resetDroplets numDroplets rnd
            (case initialHeightMap of
               Some hm0 \<Rightarrow> if resetHeightmap then s\<lparr> heightMap := hm0 \<rparr> else s
             | None \<Rightarrow> s))"

definition pause :: "simulator \<Rightarrow> simulator" where
  "pause s = s\<lparr> dropletsActive := Some False \<rparr>"

definition resume :: "simulator \<Rightarrow> simulator" where
  "resume s = s\<lparr> dropletsActive := Some True \<rparr>"

definition toIndex :: "int \<Rightarrow> int \<Rightarrow> int \<Rightarrow> int" where
  "toIndex w x y = y * w + x"

definition bilinearInterp :: "int \<Rightarrow> int \<Rightarrow> real list \<Rightarrow> real \<Rightarrow> real \<Rightarrow> real option" where
  "bilinearInterp w h hm x y =
     (let cellX = \<lfloor>x\<rfloor>; cellY = \<lfloor>y\<rfloor>;
          offX = x - of_int cellX; offY = y - of_int cellY
      in if cellX < 0 \<or> cellY < 0 \<or> cellX \<ge> w - 1 \<or> cellY \<ge> h - 1 then Some 0
         else
           case rd hm (toIndex w cellX cellY) of None \<Rightarrow> None | Some h00 \<Rightarrow>
           case rd hm (toIndex w (cellX + 1) cellY) of None \<Rightarrow> None | Some h10 \<Rightarrow>
           case rd hm (toIndex w cellX (cellY + 1)) of None \<Rightarrow> None | Some h01 \<Rightarrow>
           case rd hm (toIndex w (cellX + 1) (cellY + 1)) of None \<Rightarrow> None | Some h11 \<Rightarrow>
             Some (h00 * (1 - offX) * (1 - offY) + h10 * offX * (1 - offY)
                   + h01 * (1 - offX) * offY + h11 * offX * offY))"

definition calcGradient ::
  "int \<Rightarrow> int \<Rightarrow> real list \<Rightarrow> real \<Rightarrow> real \<Rightarrow> (real \<times> real) option" where
  "calcGradient w h hm x y =
     (let cellX = \<lfloor>x\<rfloor>; cellY = \<lfloor>y\<rfloor>
      in if cellX < 1 \<or> cellY < 1 \<or> cellX \<ge> w - 2 \<or> cellY \<ge> h - 2 then Some (0, 0)
         else
           case bilinearInterp w h hm (x - 1) y of None \<Rightarrow> None | Some hL \<Rightarrow>
           case bilinearInterp w h hm (x + 1) y of None \<Rightarrow> None | Some hR \<Rightarrow>
           case bilinearInterp w h hm x (y - 1) of None \<Rightarrow> None | Some hD \<Rightarrow>
           case bilinearInterp w h hm x (y + 1) of None \<Rightarrow> None | Some hU \<Rightarrow>
             Some ((hR - hL) * 0.5, (hU - hD) * 0.5))"

definition bilinearAdd ::
  "int \<Rightarrow> int \<Rightarrow> real list \<Rightarrow> int \<Rightarrow> int \<Rightarrow> real \<Rightarrow> real \<Rightarrow> real \<Rightarrow> real list" where
  "bilinearAdd w h hm x y offX offY v =
     (let w00 = (1 - offX) * (1 - offY);
          w10 = offX * (1 - offY);
          w01 = (1 - offX) * offY;
          w11 = offX * offY
      in if x \<ge> 0 \<and> y \<ge> 0 \<and> x < w - 1 \<and> y < h - 1 then
           let a1 = add_at hm (toIndex w x y) (v * w00);
               a2 = add_at a1 (toIndex w (x + 1) y) (v * w10);
               a3 = add_at a2 (toIndex w x (y + 1)) (v * w01);
               a4 = add_at a3 (toIndex w (x + 1) (y + 1)) (v * w11);
               a5 = clamp_at a4 (toIndex w x y);
               a6 = clamp_at a5 (toIndex w (x + 1) y);
               a7 = clamp_at a6 (toIndex w x (y + 1))
           in clamp_at a7 (toIndex w (x + 1) (y + 1))
         else hm)"

text \<open>
  Lines 126 to 138 of \<open>stepDroplets\<close>: deposit when the droplet carries more sediment than
  its capacity, erode otherwise. The result is the heightmap and the droplet's sediment.
\<close>

definition erodeOrDeposit ::
  "erosion_params \<Rightarrow> int \<Rightarrow> int \<Rightarrow> real list \<Rightarrow> int \<Rightarrow> int \<Rightarrow> real \<Rightarrow> real \<Rightarrow>
     real \<Rightarrow> real \<Rightarrow> real \<Rightarrow> real list \<times> real" where
  "erodeOrDeposit p w h hm cellX cellY offX offY capacity newH sed =
     (if sed > capacity then
        let deposit = (sed - capacity) * depositionRate p
        in (bilinearAdd w h hm cellX cellY offX offY deposit, sed - deposit)
      else
        let erode = min ((capacity - sed) * depositionRate p) newH
        in if erode > 0 then (bilinearAdd w h hm cellX cellY offX offY (- erode), sed + erode)
           else (hm, sed))"

text \<open>
  The body of the loop of \<open>stepDroplets\<close> for one live droplet, one simulation step, in
  three parts. \<open>moveDroplet\<close> is lines 82 to 92: blend the direction with the downhill
  gradient, normalise it unless its length is zero, and advance the position.
\<close>

definition moveDroplet :: "erosion_params \<Rightarrow> real \<Rightarrow> real \<Rightarrow> droplet \<Rightarrow> droplet" where
  "moveDroplet p gx gy d =
     (let dx1 = d_dx d * inertia p - gx * (1 - inertia p);
          dy1 = d_dy d * inertia p - gy * (1 - inertia p);
          len = sqrt (dx1 * dx1 + dy1 * dy1);
          dx2 = (if len \<noteq> 0 then dx1 / len else dx1);
          dy2 = (if len \<noteq> 0 then dy1 / len else dy1)
      in d\<lparr> d_x := d_x d + dx2, d_y := d_y d + dy2, d_dx := dx2, d_dy := dy2 \<rparr>)"

text \<open>The bounds test of line 94.\<close>

definition outOfBounds :: "int \<Rightarrow> int \<Rightarrow> droplet \<Rightarrow> bool" where
  "outOfBounds w h d \<longleftrightarrow>
     d_x d < 1 \<or> d_x d > of_int w - 2 \<or> d_y d < 1 \<or> d_y d > of_int h - 2"

text \<open>
  \<open>settleDroplet\<close> is lines 98 to 145, for a droplet that stayed in bounds: speed, capacity,
  erosion or deposition at the cell and offsets of the position before the move,
  evaporation, ageing and the kill test. \<open>h0\<close> and \<open>newH\<close> are the interpolated heights
  before and after the move.
\<close>

definition settleDroplet ::
  "erosion_params \<Rightarrow> int \<Rightarrow> int \<Rightarrow> real list \<Rightarrow> int \<Rightarrow> int \<Rightarrow> real \<Rightarrow> real \<Rightarrow>
     real \<Rightarrow> real \<Rightarrow> droplet \<Rightarrow> real list \<times> droplet" where
  "settleDroplet p w h hm cellX cellY offX offY h0 newH d =
     (let deltaH = newH - h0;
          speed1 = sqrt (max 0 (speed d * speed d + deltaH * - 9.81)) * (1 - friction p);
          capacity = max (- deltaH) 0.01 * speed1 * water d * sedimentCapacityFactor p;
          r = erodeOrDeposit p w h hm cellX cellY offX offY capacity newH (sediment d);
          water1 = water d * (1 - evaporationRate p);
          lifetime1 = lifetime d + 1;
          d2 = d\<lparr> speed := speed1, water := water1, sediment := snd r,
                  lifetime := lifetime1 \<rparr>
      in (fst r,
          if water1 < minVolume p \<or> real lifetime1 > maxDropletLifetime p \<or> speed1 < 0.01
          then d2\<lparr> alive := False \<rparr> else d2))"

definition stepDroplet ::
  "erosion_params \<Rightarrow> int \<Rightarrow> int \<Rightarrow> real list \<Rightarrow> droplet \<Rightarrow> (real list \<times> droplet) option" where
  "stepDroplet p w h hm d =
     (let cellX = \<lfloor>d_x d\<rfloor>; cellY = \<lfloor>d_y d\<rfloor>;
          offX = d_x d - of_int cellX; offY = d_y d - of_int cellY
      in case bilinearInterp w h hm (d_x d) (d_y d) of None \<Rightarrow> None | Some h0 \<Rightarrow>
         case calcGradient w h hm (d_x d) (d_y d) of None \<Rightarrow> None | Some g \<Rightarrow>
         let d1 = moveDroplet p (fst g) (snd g) d
         in if outOfBounds w h d1 then Some (hm, d1\<lparr> alive := False \<rparr>)
            else
              case bilinearInterp w h hm (d_x d1) (d_y d1) of None \<Rightarrow> None | Some newH \<Rightarrow>
                Some (settleDroplet p w h hm cellX cellY offX offY h0 newH d1))"

text \<open>
  The loop of \<open>stepDroplets\<close> over the pool, from the current droplet on: it stops once
  \<open>activeCount\<close> has reached \<open>batchSize\<close>, skips dead droplets and steps live ones in
  pool order, each on the heightmap the earlier ones left.
\<close>

fun stepLoop ::
  "erosion_params \<Rightarrow> int \<Rightarrow> int \<Rightarrow> int \<Rightarrow> int \<Rightarrow> real list \<Rightarrow> droplet list \<Rightarrow>
     (real list \<times> droplet list) option" where
  "stepLoop p w h batchSize activeCount hm [] = Some (hm, [])"
| "stepLoop p w h batchSize activeCount hm (d # ds) =
     (if \<not> activeCount < batchSize then Some (hm, d # ds)
      else if \<not> alive d then
        (case stepLoop p w h batchSize activeCount hm ds of None \<Rightarrow> None
         | Some (hm', ds') \<Rightarrow> Some (hm', d # ds'))
      else
        (case stepDroplet p w h hm d of None \<Rightarrow> None
         | Some (hm1, d1) \<Rightarrow>
             (case stepLoop p w h batchSize (activeCount + 1) hm1 ds of None \<Rightarrow> None
              | Some (hm', ds') \<Rightarrow> Some (hm', d1 # ds'))))"

text \<open>
  \<open>stepDroplets\<close> returns whether a droplet is still alive, and the simulator after the
  batch. The \<open>onStep\<close> callback only receives a copy of the heightmap and is left out.
  Before \<open>start\<close> the field \<open>droplets\<close> is \<^verbatim>\<open>undefined\<close> and reading its length throws.
\<close>

definition stepDroplets :: "int \<Rightarrow> simulator \<Rightarrow> js_error + (bool \<times> simulator)" where
  "stepDroplets batchSize s =
     (case droplets s of None \<Rightarrow> Inl TypeError
      | Some ds \<Rightarrow>
          (case stepLoop (params s) (width s) (height s) batchSize 0 (heightMap s) ds of
             None \<Rightarrow> Inl NotANumber
           | Some (hm', ds') \<Rightarrow>
               Inr (list_ex alive ds', s\<lparr> heightMap := hm', droplets := Some ds' \<rparr>)))"

text \<open>A sequence of \<open>stepDroplets\<close> calls, one per batch size of the list.\<close>

fun stepMany :: "int list \<Rightarrow> simulator \<Rightarrow> js_error + simulator" where
  "stepMany [] s = Inr s"
| "stepMany (b # bs) s =
     (case stepDroplets b s of Inl e \<Rightarrow> Inl e | Inr (_, s') \<Rightarrow> stepMany bs s')"

section \<open>Rounding\<close>


text \<open>
  \<open>createDroplet\<close> in doubles: \<^verbatim>\<open>Math.random() * (this.width - 2) + 1\<close> is a difference, a
  product and a sum, each rounded.
\<close>

definition createDropletRounded :: "(real \<Rightarrow> real) \<Rightarrow> simulator \<Rightarrow> real \<Rightarrow> real \<Rightarrow> droplet" where
  "createDropletRounded fl s rx ry =
     \<lparr> d_x = fl (fl (rx * fl (of_int (width s) - 2)) + 1),
       d_y = fl (fl (ry * fl (of_int (height s) - 2)) + 1),
       d_dx = 0, d_dy = 0,
       speed = initialSpeed (params s),
       water = initialVolume (params s),
       sediment = 0, lifetime = 0, alive = True \<rparr>"

definition resetDropletsRounded ::
  "(real \<Rightarrow> real) \<Rightarrow> int \<Rightarrow> (nat \<Rightarrow> real) \<Rightarrow> simulator \<Rightarrow> simulator" where
  "resetDropletsRounded fl numDroplets rnd s =
     s\<lparr> droplets := Some (map (\<lambda>i. createDropletRounded fl s (rnd (2 * i)) (rnd (2 * i + 1)))
                              [0 ..< nat numDroplets]),
         dropletsActive := Some True \<rparr>"

definition startRounded ::
  "(real \<Rightarrow> real) \<Rightarrow> int \<Rightarrow> bool \<Rightarrow> real list option \<Rightarrow> (nat \<Rightarrow> real) \<Rightarrow> simulator \<Rightarrow>
     js_error + simulator" where
  "startRounded fl numDroplets resetHeightmap initialHeightMap rnd s =
     Inr (resetDropletsRounded fl numDroplets rnd
            (case initialHeightMap of
               Some hm0 \<Rightarrow> if resetHeightmap then s\<lparr> heightMap := hm0 \<rparr> else s
             | None \<Rightarrow> s))"



section \<open>HeightfieldService: flow accumulation\<close>

text \<open>
  \<open>computeFlowMap\<close> first finds, for every cell, its downslope target: the lowest of its
  eight neighbours when that neighbour is strictly lower than the cell, in the scan order of
  the two nested loops (\<open>dy\<close> outer, \<open>dx\<close> inner), and the cell itself otherwise. A
  comparison with \<^verbatim>\<open>undefined\<close> is false, as in JavaScript.
\<close>

definition js_lt :: "real option \<Rightarrow> real option \<Rightarrow> bool" where
  "js_lt a b = (case a of None \<Rightarrow> False | Some u \<Rightarrow> (case b of None \<Rightarrow> False | Some v \<Rightarrow> u < v))"

definition neighbourOffsets :: "(int \<times> int) list" where
  "neighbourOffsets = [(-1, -1), (0, -1), (1, -1), (-1, 0), (1, 0), (-1, 1), (0, 1), (1, 1)]"

definition visitNeighbour ::
  "real list \<Rightarrow> int \<Rightarrow> int \<Rightarrow> int \<Rightarrow> int \<Rightarrow> real option \<times> int \<Rightarrow> int \<times> int \<Rightarrow> real option \<times> int" where
  "visitNeighbour hm w h x y m ofs =
     (let nx = x + fst ofs; ny = y + snd ofs
      in if nx < 0 \<or> nx \<ge> w \<or> ny < 0 \<or> ny \<ge> h then m
         else let nIdx = ny * w + nx
              in if js_lt (rd hm nIdx) (fst m) then (rd hm nIdx, nIdx) else m)"

definition downslopeOf :: "real list \<Rightarrow> int \<Rightarrow> int \<Rightarrow> int \<Rightarrow> int \<Rightarrow> int" where
  "downslopeOf hm w h x y =
     snd (foldl (visitNeighbour hm w h x y) (rd hm (y * w + x), y * w + x) neighbourOffsets)"

definition gridCells :: "int \<Rightarrow> int \<Rightarrow> (int \<times> int) list" where
  "gridCells w h = concat (map (\<lambda>y. map (\<lambda>x. (x, y)) [0 .. w - 1]) [0 .. h - 1])"

definition downslopeMap :: "real list \<Rightarrow> int \<Rightarrow> int \<Rightarrow> int list" where
  "downslopeMap hm w h =
     foldl (\<lambda>ds c. wr ds (snd c * w + fst c) (downslopeOf hm w h (fst c) (snd c)))
       (replicate (nat (w * h)) 0) (gridCells w h)"

text \<open>
  The accumulation loop: a cell whose target is another cell adds its current flow to the
  target's flow.
\<close>

definition accumulate :: "int list \<Rightarrow> real list \<Rightarrow> int \<Rightarrow> real list" where
  "accumulate downslope flowMap idx =
     (case rd downslope idx of None \<Rightarrow> flowMap
      | Some ds \<Rightarrow>
          if ds \<noteq> idx then (case rd flowMap idx of None \<Rightarrow> flowMap | Some f \<Rightarrow> add_at flowMap ds f)
          else flowMap)"

text \<open>
  Allocating the flow map throws \<open>RangeError\<close> for a negative length. The indices are
  sorted by ascending height with the stable sort of JavaScript, which is a stable insertion
  sort here. Where the heightmap is shorter than \<open>width * height\<close> the comparator meets
  \<^verbatim>\<open>undefined\<close> and the order is no longer determined: the model stops there.
\<close>

definition computeFlowMap :: "real list \<Rightarrow> int \<Rightarrow> int \<Rightarrow> js_error + real list" where
  "computeFlowMap hm w h =
     (if w * h < 0 then Inl RangeError
      else if int (length hm) < w * h then Inl NotANumber
      else Inr (foldl (accumulate (downslopeMap hm w h)) (replicate (nat (w * h)) 1)
                  (sort_key (\<lambda>i. hm ! nat i) (map int [0 ..< nat (w * h)]))))"

text \<open>
  The sink cells are the cells whose downslope target is themselves; \<open>sinkFlowTotal\<close>
  sums a flow map over a list of cells.
\<close>

definition sinkCells :: "real list \<Rightarrow> int \<Rightarrow> int \<Rightarrow> int list" where
  "sinkCells hm w h =
     filter (\<lambda>i. rd (downslopeMap hm w h) i = Some i) (map int [0 ..< nat (w * h)])"

definition sinkFlowTotal :: "real list \<Rightarrow> int list \<Rightarrow> real" where
  "sinkFlowTotal flowMap sinks = sum_list (map (\<lambda>i. flowMap ! nat i) sinks)"

section \<open>HeightmapGenerationService: generateTerrainInternal\<close>

text \<open>
  The parameters after the merge with \<open>defaultParams\<close>; the field \<^verbatim>\<open>size\<close> is \<open>worldSize\<close>
  here. \<open>seed\<close>, \<open>worleySeed\<close> and \<open>worleyDimension\<close> only reach the constructors of the
  third-party packages.
\<close>

record generation_params =
  octaves :: int
  ridgedOffset :: real
  gain :: real
  lacunarity :: real
  amplitude :: real
  domainWarpStrength :: real
  domainWarpFreq :: real
  frequency :: real
  worleyPoints :: real
  worleySeed :: real
  worleyDimension :: real
  windDirection :: real
  meshResolution :: int
  worldSize :: real
  applySmoothing :: bool
  smoothIterations :: int
  smoothFactor :: real
  seed :: real

text \<open>
  The packages \<^verbatim>\<open>alea\<close>, \<^verbatim>\<open>noisejs\<close>, \<^verbatim>\<open>worley-noise\<close> and \<^verbatim>\<open>three\<close> are not part of the
  repository. What they return for the given parameters is a parameter of the model:
  the two gradient noises, the \<open>getEuclidean\<close> of the Worley instance when the \<^verbatim>\<open>try\<close>
  block of lines 154 to 166 completes (\<open>None\<close> when it throws and the \<^verbatim>\<open>catch\<close> installs the
  fallback), the stream of the seeded generator that \<open>createWorleyPointsInternal\<close> draws
  from, and \<^verbatim>\<open>THREE.MathUtils.lerp\<close>. So is the length of the longest \<^verbatim>\<open>Float32Array\<close> that
  the engine allocates.
\<close>

record noise_backend =
  simplex2 :: "real \<Rightarrow> real \<Rightarrow> real"
  perlin2 :: "real \<Rightarrow> real \<Rightarrow> real"
  worleyLibrary :: "(real \<Rightarrow> real \<Rightarrow> real) option"
  worleyPrng :: "nat \<Rightarrow> real"
  lerp :: "real \<Rightarrow> real \<Rightarrow> real \<Rightarrow> real"
  maxArrayLength :: nat

record terrain =
  heightmap :: "real list"
  gridWidth :: int
  gridHeight :: int

definition clamp01Internal :: "real \<Rightarrow> real" where
  "clamp01Internal v = max 0 (min 1 v)"

definition createWorleyPointsInternal :: "nat \<Rightarrow> (nat \<Rightarrow> real) \<Rightarrow> (real \<times> real) list" where
  "createWorleyPointsInternal n prng = map (\<lambda>i. (prng (2 * i), prng (2 * i + 1))) [0 ..< n]"

text \<open>
  The distance to the nearest Worley point: from the library instance, or by the fallback's
  search over the seeded points, which starts from \<^verbatim>\<open>Infinity\<close> (\<open>None\<close>).
\<close>

definition getEuclidean :: "noise_backend \<Rightarrow> (real \<times> real) list \<Rightarrow> real \<Rightarrow> real \<Rightarrow> real option" where
  "getEuclidean nb pts x y =
     (case worleyLibrary nb of
        Some g \<Rightarrow> Some (g x y)
      | None \<Rightarrow>
          foldl (\<lambda>minDist point.
                   let dx = x - fst point; dy = y - snd point; dist = sqrt (dx * dx + dy * dy)
                   in Some (case minDist of None \<Rightarrow> dist | Some m \<Rightarrow> min m dist))
            None pts)"

text \<open>
  One octave of lines 208 to 238, on the running height, amplitude and frequency. A
  division by a world size of zero leaves the real numbers (\<open>None\<close>).
\<close>

definition octaveStep ::
  "noise_backend \<Rightarrow> (real \<times> real) list \<Rightarrow> generation_params \<Rightarrow> real \<Rightarrow> real \<Rightarrow> real \<Rightarrow> real \<Rightarrow>
     real \<times> real \<times> real \<Rightarrow> nat \<Rightarrow> (real \<times> real \<times> real) option" where
  "octaveStep nb pts p dirX dirY worldX worldY st oct =
     (let h = fst st; currentAmp = fst (snd st); currentFreq = snd (snd st);
          warpNoiseFreq = domainWarpFreq p * lacunarity p ^ oct;
          warpNoiseAmp = domainWarpStrength p * currentAmp;
          warpOffsetX = simplex2 nb (worldX * warpNoiseFreq) (worldY * warpNoiseFreq)
                          * warpNoiseAmp * dirX;
          warpOffsetY = simplex2 nb (worldX * warpNoiseFreq + 100) (worldY * warpNoiseFreq + 100)
                          * warpNoiseAmp * dirY;
          warpedX = worldX + warpOffsetX;
          warpedY = worldY + warpOffsetY;
          vSimplex = simplex2 nb (warpedX * currentFreq) (warpedY * currentFreq);
          vPerlin = perlin2 nb (warpedX * currentFreq) (warpedY * currentFreq)
      in if worldSize p = 0 then None
         else
           let normX = clamp01Internal (warpedX / worldSize p + 0.5);
               normY = clamp01Internal (warpedY / worldSize p + 0.5)
           in case getEuclidean nb pts normX normY of None \<Rightarrow> None
              | Some d \<Rightarrow>
                  let vWorley = 1.0 - 2.0 * d;
                      rSimplex = (ridgedOffset p - \<bar>vSimplex\<bar>) * (ridgedOffset p - \<bar>vSimplex\<bar>);
                      rPerlin = (ridgedOffset p - \<bar>vPerlin\<bar>) * (ridgedOffset p - \<bar>vPerlin\<bar>);
                      rWorley = (ridgedOffset p - \<bar>vWorley\<bar>) * (ridgedOffset p - \<bar>vWorley\<bar>);
                      microDetail = simplex2 nb (warpedX * currentFreq * 4) (warpedY * currentFreq * 4)
                                      * 0.1;
                      v = (rSimplex + rPerlin + rWorley) / 3 + microDetail
                  in Some (h + v * currentAmp, currentAmp * gain p, currentFreq * lacunarity p))"

text \<open>
  The height of one grid cell, lines 201 to 240. On a grid of width 1 the division
  \<^verbatim>\<open>ix / (gridWidth - 1)\<close> is 0 / 0 (\<open>None\<close>).
\<close>

definition cellHeight ::
  "noise_backend \<Rightarrow> (real \<times> real) list \<Rightarrow> generation_params \<Rightarrow> real \<Rightarrow> real \<Rightarrow> int \<Rightarrow> int \<Rightarrow>
     int \<Rightarrow> int \<Rightarrow> real option" where
  "cellHeight nb pts p dirX dirY gw gh ix iy =
     (if gw - 1 = 0 \<or> gh - 1 = 0 then None
      else
        let worldX = (of_int ix / of_int (gw - 1) - 0.5) * worldSize p;
            worldY = (of_int iy / of_int (gh - 1) - 0.5) * worldSize p
        in case foldl (\<lambda>st oct. case st of None \<Rightarrow> None
                               | Some t \<Rightarrow> octaveStep nb pts p dirX dirY worldX worldY t oct)
                  (Some (0, 1, frequency p)) [0 ..< nat (octaves p)] of
             None \<Rightarrow> None
           | Some st \<Rightarrow> Some (fst st * amplitude p))"

text \<open>
  The two nested loops of lines 199 to 247 write every cell of the zero-initialised grid;
  they do not run when the grid dimensions are not positive.
\<close>

definition fillHeights ::
  "noise_backend \<Rightarrow> (real \<times> real) list \<Rightarrow> generation_params \<Rightarrow> real \<Rightarrow> real \<Rightarrow> int \<Rightarrow> int \<Rightarrow>
     real list option" where
  "fillHeights nb pts p dirX dirY gw gh =
     foldl (\<lambda>acc c. case acc of None \<Rightarrow> None
                     | Some zs \<Rightarrow>
                         (case cellHeight nb pts p dirX dirY gw gh (fst c) (snd c) of
                            None \<Rightarrow> None
                          | Some v \<Rightarrow> Some (wr zs (snd c * gw + fst c) v)))
       (Some (replicate (nat (gw * gh)) 0)) (gridCells gw gh)"

text \<open>
  The edge blending of lines 252 to 265, for one cell.
\<close>

definition blendEdge :: "int \<Rightarrow> int \<Rightarrow> real list \<Rightarrow> int \<times> int \<Rightarrow> real list" where
  "blendEdge gw gh zs c =
     (let ix = fst c; iy = snd c;
          margin = 1;
          edgeDistX = min ix (gw - 1 - ix);
          edgeDistY = min iy (gh - 1 - iy);
          edgeDist = min edgeDistX edgeDistY
      in if edgeDist < margin then
           (case rd zs (iy * gw + ix) of
              Some z \<Rightarrow> wr zs (iy * gw + ix) (z * (of_int edgeDist / of_int margin))
            | None \<Rightarrow> zs)
         else zs)"

text \<open>
  \<open>applySmoothingInternal\<close> on the heights of the vertices. \<^verbatim>\<open>i % mapWidth\<close> is the truncated
  remainder. A pass computes every cell from the copy made at its start; zero iterations and
  a zero factor fall back to the defaults 1 and 0.5 (\<^verbatim>\<open>||\<close>).
\<close>

definition smoothKernel :: "(int \<times> int \<times> real) list" where
  "smoothKernel =
     [(-1, -1, 0.5), (0, -1, 1), (1, -1, 0.5),
      (-1, 0, 1), (1, 0, 1),
      (-1, 1, 0.5), (0, 1, 1), (1, 1, 0.5)]"

definition js_rem :: "int \<Rightarrow> int \<Rightarrow> int" where
  "js_rem a b = sgn a * (\<bar>a\<bar> mod \<bar>b\<bar>)"

definition smoothCell ::
  "(real \<Rightarrow> real \<Rightarrow> real \<Rightarrow> real) \<Rightarrow> real list \<Rightarrow> int \<Rightarrow> int \<Rightarrow> real \<Rightarrow> nat \<Rightarrow> real option" where
  "smoothCell lrp cur mapWidth mapHeight factor i =
     (let x = js_rem (int i) mapWidth;
          y = int i div mapWidth
      in case rd cur (int i) of None \<Rightarrow> None
         | Some z \<Rightarrow>
             (case foldl (\<lambda>acc k.
                      case acc of None \<Rightarrow> None
                      | Some st \<Rightarrow>
                          let nx = x + fst k; ny = y + fst (snd k)
                          in if nx \<ge> 0 \<and> nx < mapWidth \<and> ny \<ge> 0 \<and> ny < mapHeight then
                               (case rd cur (ny * mapWidth + nx) of None \<Rightarrow> None
                                | Some nz \<Rightarrow> Some (fst st + nz * snd (snd k), snd st + snd (snd k)))
                             else Some st)
                    (Some (z, 1)) smoothKernel of
                None \<Rightarrow> None
              | Some st \<Rightarrow> Some (lrp z (fst st / snd st) factor)))"

definition smoothPass ::
  "(real \<Rightarrow> real \<Rightarrow> real \<Rightarrow> real) \<Rightarrow> int \<Rightarrow> int \<Rightarrow> real \<Rightarrow> real list \<Rightarrow> real list option" where
  "smoothPass lrp mapWidth mapHeight factor cur =
     those (map (smoothCell lrp cur mapWidth mapHeight factor) [0 ..< length cur])"

definition applySmoothingInternal ::
  "(real \<Rightarrow> real \<Rightarrow> real \<Rightarrow> real) \<Rightarrow> real list \<Rightarrow> int \<Rightarrow> int \<Rightarrow> int \<Rightarrow> real \<Rightarrow> real list option" where
  "applySmoothingInternal lrp zs mapWidth mapHeight its fac =
     (let iterations = (if its = 0 then 1 else its);
          factor = (if fac = 0 then 0.5 else fac)
      in foldl (\<lambda>acc iter. case acc of None \<Rightarrow> None
                           | Some cur \<Rightarrow> smoothPass lrp mapWidth mapHeight factor cur)
           (Some zs) [0 ..< nat iterations])"

text \<open>
  \<open>generateTerrainInternal\<close>, lines 135 to 279. It has no check of its parameters and
  no \<^verbatim>\<open>throw\<close> outside the \<^verbatim>\<open>try\<close> block. Each of the two allocations of line 196 and
  line 197 throws \<open>RangeError\<close> for a negative length and for a length beyond what the
  engine allocates. \<open>NotANumber\<close> is not an exception: it marks a run whose arithmetic
  leaves the real numbers, where the model stops.
\<close>

definition generateTerrainInternal :: "noise_backend \<Rightarrow> generation_params \<Rightarrow> js_error + terrain" where
  "generateTerrainInternal nb p =
     (let gw = meshResolution p + 1;
          gh = meshResolution p + 1;
          numWorleyPoints = nat (max 128 (min 4096 \<lfloor>worleyPoints p\<rfloor>));
          pts = createWorleyPointsInternal numWorleyPoints (worleyPrng nb);
          dirX = cos (windDirection p);
          dirY = sin (windDirection p)
      in if gw * gh < 0 \<or> int (maxArrayLength nb) < gw * gh
            \<or> gw * gh * 3 < 0 \<or> int (maxArrayLength nb) < gw * gh * 3 then Inl RangeError
         else
           case fillHeights nb pts p dirX dirY gw gh of None \<Rightarrow> Inl NotANumber
           | Some zs \<Rightarrow>
               let blended = foldl (blendEdge gw gh) zs (gridCells gw gh)
               in if applySmoothing p then
                    (case applySmoothingInternal (lerp nb) blended gw gh (smoothIterations p)
                            (smoothFactor p) of
                       None \<Rightarrow> Inl NotANumber
                     | Some smoothed \<Rightarrow>
                         Inr \<lparr> heightmap = smoothed, gridWidth = gw, gridHeight = gh \<rparr>)
                  else Inr \<lparr> heightmap = blended, gridWidth = gw, gridHeight = gh \<rparr>)"

section \<open>Predicates, error bounds and test data\<close>

text \<open>
  A heightfield is non-negative when none of its cells is negative.
\<close>

definition nonNegative :: "real list \<Rightarrow> bool" where
  "nonNegative hm = list_all (\<lambda>c. 0 \<le> c) hm"









text \<open>
  A rounding function for instances: to the nearest quarter.
\<close>

definition quarters :: "real \<Rightarrow> real" where
  "quarters x = of_int \<lfloor>4 * x + 1 / 2\<rfloor> / 4"

text \<open>
  A 5 by 5 heightfield whose gradient at the point (1.5, 1.5) is zero although the four
  cells around that point differ, the same field after one erosion step of a droplet resting
  there, and the droplet before and after that step.
\<close>

definition bumpyField :: "real list" where
  "bumpyField =
     [0, 4, 0, 0, 0,
      4, 0, 4, 0, 0,
      0, 4, 4, 0, 0,
      0, 0, 0, 0, 0,
      0, 0, 0, 0, 0]"


definition freshDroplet :: droplet where
  "freshDroplet =
     \<lparr> d_x = 1.5, d_y = 1.5, d_dx = 0, d_dy = 0, speed = 1, water = 1, sediment = 0,
       lifetime = 0, alive = True \<rparr>"


definition bumpySim :: simulator where
  "bumpySim =
     \<lparr> width = 5, height = 5, heightMap = bumpyField, params = defaultParams,
       droplets = Some [freshDroplet], dropletsActive = Some True \<rparr>"

text \<open>
  A flat 5 by 5 heightfield of height zero. On it a droplet at (1.5, 1.5) never moves and
  never erodes: after \<open>k\<close> steps under the default parameters it is \<open>agedDroplet k\<close>, and
  \<open>flatSim k\<close> is the simulator holding it. \<open>sixth\<close> is the random sequence that places
  the droplet of \<open>start\<close> at (1.5, 1.5).
\<close>

definition flatField :: "real list" where
  "flatField = replicate 25 0"

definition agedDroplet :: "nat \<Rightarrow> droplet" where
  "agedDroplet k =
     \<lparr> d_x = 1.5, d_y = 1.5, d_dx = 0, d_dy = 0, speed = 0.98 ^ k, water = 0.99 ^ k,
       sediment = 0, lifetime = k, alive = True \<rparr>"

definition flatSim :: "nat \<Rightarrow> simulator" where
  "flatSim k =
     \<lparr> width = 5, height = 5, heightMap = flatField, params = defaultParams,
       droplets = Some [agedDroplet k], dropletsActive = Some True \<rparr>"

definition sixth :: "nat \<Rightarrow> real" where
  "sixth i = 1 / 6"

text \<open>
  A 4 by 4 simulator before \<open>start\<close>, a random sequence that always draws 3/4 and the
  droplet it creates there, and one that always draws 0.99; a simulator with grid dimensions
  zero; and a 3 by 3 heightfield sloping down to its corner cell 0.
\<close>

definition threeQuarters :: "nat \<Rightarrow> real" where
  "threeQuarters i = 3 / 4"

definition nearOne :: "nat \<Rightarrow> real" where
  "nearOne i = 99 / 100"

definition smallSim :: simulator where
  "smallSim =
     \<lparr> width = 4, height = 4, heightMap = replicate 16 0, params = defaultParams,
       droplets = None, dropletsActive = None \<rparr>"

definition lateDroplet :: droplet where
  "lateDroplet =
     \<lparr> d_x = 2.5, d_y = 2.5, d_dx = 0, d_dy = 0, speed = 1, water = 1, sediment = 0,
       lifetime = 0, alive = True \<rparr>"

definition emptySim :: simulator where
  "emptySim =
     \<lparr> width = 0, height = 0, heightMap = [], params = defaultParams,
       droplets = None, dropletsActive = None \<rparr>"

definition slopeField :: "real list" where
  "slopeField = [0, 1, 2,  1, 2, 3,  2, 3, 4]"

text \<open>
  A noise backend that is zero everywhere and whose Worley construction fails, the default
  generation parameters, two parameter sets with a mesh resolution that gives a grid of
  width 0 and of width -2, and an engine that allocates no array longer than 100.
\<close>

definition stillNoise :: noise_backend where
  "stillNoise =
     \<lparr> simplex2 = (\<lambda>x y. 0), perlin2 = (\<lambda>x y. 0), worleyLibrary = None,
       worleyPrng = (\<lambda>i. 1 / 2), lerp = (\<lambda>x y t. (1 - t) * x + t * y),
       maxArrayLength = 4294967295 \<rparr>"

definition HeightmapDefaultParams :: generation_params where
  "HeightmapDefaultParams =
     \<lparr> octaves = 6, ridgedOffset = 0.5, gain = 0.5, lacunarity = 2.0, amplitude = 1.0,
       domainWarpStrength = 0.35, domainWarpFreq = 0.08, frequency = 0.15,
       worleyPoints = 1024, worleySeed = 0, worleyDimension = 2, windDirection = pi / 4,
       meshResolution = 512, worldSize = 1000, applySmoothing = True, smoothIterations = 1,
       smoothFactor = 0.5, seed = 0 \<rparr>"

definition emptyGridParams :: generation_params where
  "emptyGridParams = HeightmapDefaultParams\<lparr> meshResolution := - 1 \<rparr>"

definition negativeGridParams :: generation_params where
  "negativeGridParams = HeightmapDefaultParams\<lparr> meshResolution := - 3 \<rparr>"

definition smallEngine :: noise_backend where
  "smallEngine = stillNoise\<lparr> maxArrayLength := 100 \<rparr>"

section \<open>Array accesses stay in range\<close>

lemma toIndex_range:
  assumes "0 \<le> i" "i < w" "0 \<le> j" "j < h"
  shows "0 \<le> toIndex w i j \<and> toIndex w i j < w * h"
proof -
  have w: "0 < w" using assms by linarith
  have "j * w \<le> (h - 1) * w" using assms w by (intro mult_right_mono) auto
  then have "j * w + i < h * w" using assms by (simp add: algebra_simps)
  moreover have "0 \<le> j * w" using assms w by simp
  ultimately show ?thesis using assms by (simp add: toIndex_def mult.commute)
qed

lemma rd_toIndex:
  assumes "int (length hm) = w * h" "0 \<le> i" "i < w" "0 \<le> j" "j < h"
  shows "\<exists>v. rd hm (toIndex w i j) = Some v"
  using toIndex_range[OF assms(2-5)] assms(1) by (simp add: rd_def)


lemma bilinearInterp_outside:
  "\<lfloor>x\<rfloor> < 0 \<or> \<lfloor>y\<rfloor> < 0 \<or> \<lfloor>x\<rfloor> \<ge> w - 1 \<or> \<lfloor>y\<rfloor> \<ge> h - 1 \<Longrightarrow> bilinearInterp w h hm x y = Some 0"
  by (simp add: bilinearInterp_def Let_def)

lemma calcGradient_outside:
  "\<lfloor>x\<rfloor> < 0 \<or> \<lfloor>y\<rfloor> < 0 \<or> \<lfloor>x\<rfloor> \<ge> w - 1 \<or> \<lfloor>y\<rfloor> \<ge> h - 1 \<Longrightarrow> calcGradient w h hm x y = Some (0, 0)"
  by (auto simp add: calcGradient_def Let_def)

lemma bilinearInterp_defined:
  assumes wf: "int (length hm) = w * h"
  shows "\<exists>v. bilinearInterp w h hm x y = Some v"
proof (cases "\<lfloor>x\<rfloor> < 0 \<or> \<lfloor>y\<rfloor> < 0 \<or> \<lfloor>x\<rfloor> \<ge> w - 1 \<or> \<lfloor>y\<rfloor> \<ge> h - 1")
  case True
  then show ?thesis by (simp add: bilinearInterp_outside)
next
  case False
  then have r: "0 \<le> \<lfloor>x\<rfloor>" "\<lfloor>x\<rfloor> < w" "0 \<le> \<lfloor>x\<rfloor> + 1" "\<lfloor>x\<rfloor> + 1 < w"
    "0 \<le> \<lfloor>y\<rfloor>" "\<lfloor>y\<rfloor> < h" "0 \<le> \<lfloor>y\<rfloor> + 1" "\<lfloor>y\<rfloor> + 1 < h" by auto
  obtain h00 where a: "rd hm (toIndex w \<lfloor>x\<rfloor> \<lfloor>y\<rfloor>) = Some h00"
    using rd_toIndex[OF wf r(1,2,5,6)] by blast
  obtain h10 where b: "rd hm (toIndex w (\<lfloor>x\<rfloor> + 1) \<lfloor>y\<rfloor>) = Some h10"
    using rd_toIndex[OF wf r(3,4,5,6)] by blast
  obtain h01 where c: "rd hm (toIndex w \<lfloor>x\<rfloor> (\<lfloor>y\<rfloor> + 1)) = Some h01"
    using rd_toIndex[OF wf r(1,2,7,8)] by blast
  obtain h11 where d: "rd hm (toIndex w (\<lfloor>x\<rfloor> + 1) (\<lfloor>y\<rfloor> + 1)) = Some h11"
    using rd_toIndex[OF wf r(3,4,7,8)] by blast
  show ?thesis using False a b c d by (simp add: bilinearInterp_def Let_def)
qed

lemma calcGradient_defined:
  assumes wf: "int (length hm) = w * h"
  shows "\<exists>g. calcGradient w h hm x y = Some g"
proof -
  obtain hL where a: "bilinearInterp w h hm (x - 1) y = Some hL"
    using bilinearInterp_defined[OF wf] by blast
  obtain hR where b: "bilinearInterp w h hm (x + 1) y = Some hR"
    using bilinearInterp_defined[OF wf] by blast
  obtain hD where c: "bilinearInterp w h hm x (y - 1) = Some hD"
    using bilinearInterp_defined[OF wf] by blast
  obtain hU where d: "bilinearInterp w h hm x (y + 1) = Some hU"
    using bilinearInterp_defined[OF wf] by blast
  have "calcGradient w h hm x y \<noteq> None"
    by (simp add: calcGradient_def Let_def a b c d del: not_None_eq)
  then show ?thesis by blast
qed

text \<open>
  Claim C8. For every heightfield and every real query point whose cell lies outside the
  interpolable range (\<open>\<lfloor>x\<rfloor> < 0\<close>, \<open>\<lfloor>y\<rfloor> < 0\<close>, \<open>\<lfloor>x\<rfloor> \<ge> width - 1\<close> or
  \<open>\<lfloor>y\<rfloor> \<ge> height - 1\<close>) the interpolation helper returns the neutral height 0 and the
  gradient helper the neutral gradient (0, 0). On a heightfield of \<open>width * height\<close> cells
  neither helper ever reads outside the array, whatever the query point: no read yields
  \<^verbatim>\<open>undefined\<close>.
\<close>

theorem interp_out_of_range_neutral:
  "(\<lfloor>x\<rfloor> < 0 \<or> \<lfloor>y\<rfloor> < 0 \<or> \<lfloor>x\<rfloor> \<ge> w - 1 \<or> \<lfloor>y\<rfloor> \<ge> h - 1 \<longrightarrow>
      bilinearInterp w h hm x y = Some 0 \<and> calcGradient w h hm x y = Some (0, 0))
   \<and> (int (length hm) = w * h \<longrightarrow>
      bilinearInterp w h hm x y \<noteq> None \<and> calcGradient w h hm x y \<noteq> None)"
proof (intro conjI impI)
  assume "int (length hm) = w * h"
  then show "bilinearInterp w h hm x y \<noteq> None" using bilinearInterp_defined by fastforce
next
  assume "int (length hm) = w * h"
  then show "calcGradient w h hm x y \<noteq> None" using calcGradient_defined by fastforce
qed (simp_all add: bilinearInterp_outside calcGradient_outside)

text \<open>
  An instance on the 3 by 3 field: the point (-1/2, 7) is out of range, the point
  (3/2, 1/2) is inside.
\<close>

theorem interp_out_of_range_neutral_witness:
  "(\<lfloor>-1/2::real\<rfloor> < 0 \<or> \<lfloor>7::real\<rfloor> < 0 \<or> \<lfloor>-1/2::real\<rfloor> \<ge> 3 - 1 \<or> \<lfloor>7::real\<rfloor> \<ge> 3 - 1)
   \<and> bilinearInterp 3 3 slopeField (-1/2) 7 = Some 0
   \<and> calcGradient 3 3 slopeField (-1/2) 7 = Some (0, 0)
   \<and> int (length slopeField) = 3 * 3
   \<and> bilinearInterp 3 3 slopeField (3/2) (1/2) \<noteq> None
   \<and> calcGradient 3 3 slopeField (3/2) (1/2) \<noteq> None"
  using interp_out_of_range_neutral[of "-1/2" 7 3 3 slopeField]
    interp_out_of_range_neutral[of "3/2" "1/2" 3 3 slopeField]
  by (simp add: slopeField_def del: not_None_eq)

text \<open>
  Claim C10. The interpolation helper returns 0 at every point whose cell lies in the last
  column or the last row (\<open>\<lfloor>x\<rfloor> \<ge> width - 1\<close> or \<open>\<lfloor>y\<rfloor> \<ge> height - 1\<close>), whatever the
  heightfield holds there; this includes points of the grid itself, such as
  \<open>x = width - 1\<close>.
\<close>

theorem interp_zero_on_last_row_and_column:
  "\<lfloor>x\<rfloor> \<ge> w - 1 \<or> \<lfloor>y\<rfloor> \<ge> h - 1 \<Longrightarrow> bilinearInterp w h hm x y = Some 0"
  by (simp add: bilinearInterp_def Let_def)

text \<open>
  An instance: the point (4, 3/2) lies on the last column of a 5 by 5 grid, and the
  interpolated height is 0 on a field that is 7 everywhere.
\<close>

theorem interp_zero_on_last_row_and_column_witness:
  "(\<lfloor>4::real\<rfloor> \<ge> 5 - 1 \<or> \<lfloor>3/2::real\<rfloor> \<ge> 5 - 1)
   \<and> rd bumpyField (toIndex 5 4 1) = Some 0 \<and> rd bumpyField (toIndex 5 2 4) = Some 0
   \<and> bilinearInterp 5 5 bumpyField 4 (3/2) = Some 0
   \<and> bilinearInterp 5 5 (replicate 25 7) 4 (3/2) = Some 0"
  using interp_zero_on_last_row_and_column[of 5 4 5 "3/2" bumpyField]
    interp_zero_on_last_row_and_column[of 5 4 5 "3/2" "replicate 25 7"]
  by (simp add: rd_def toIndex_def bumpyField_def)

section \<open>Non-negative heights\<close>

lemma nonNegative_nth: "nonNegative hm \<longleftrightarrow> (\<forall>j < length hm. 0 \<le> hm ! j)"
  by (simp add: nonNegative_def list_all_length)

lemma nonNegative_set: "nonNegative hm \<longleftrightarrow> (\<forall>c \<in> set hm. 0 \<le> c)"
  by (simp add: nonNegative_def list_all_iff)

lemma length_wr [simp]: "length (wr a i v) = length a"
  by (simp add: wr_def)

lemma length_add_at [simp]: "length (add_at a i v) = length a"
  by (simp add: add_at_def split: option.splits)

lemma length_clamp_at [simp]: "length (clamp_at a i) = length a"
  by (simp add: clamp_at_def split: option.splits)

lemma length_bilinearAdd [simp]: "length (bilinearAdd w h hm x y ox oy v) = length hm"
  by (simp add: bilinearAdd_def Let_def)

lemma nth_add_at:
  "j < length a \<Longrightarrow> add_at a i v ! j = (if int j = i then a ! j + v else a ! j)"
  by (auto simp add: add_at_def rd_def wr_def nth_list_update)

lemma nth_clamp_at:
  "j < length a \<Longrightarrow> clamp_at a i ! j = (if int j = i then max 0 (a ! j) else a ! j)"
  by (auto simp add: clamp_at_def rd_def wr_def nth_list_update)

lemma nth_bilinearAdd:
  assumes "j < length hm"
  shows "if x \<ge> 0 \<and> y \<ge> 0 \<and> x < w - 1 \<and> y < h - 1 \<and>
            int j \<in> {toIndex w x y, toIndex w (x + 1) y, toIndex w x (y + 1), toIndex w (x + 1) (y + 1)}
         then 0 \<le> bilinearAdd w h hm x y ox oy v ! j
         else bilinearAdd w h hm x y ox oy v ! j = hm ! j"
  using assms by (simp add: bilinearAdd_def Let_def nth_add_at nth_clamp_at)

lemma nonNegative_bilinearAdd:
  assumes "nonNegative hm"
  shows "nonNegative (bilinearAdd w h hm x y ox oy v)"
  unfolding nonNegative_nth
proof (intro allI impI)
  fix j assume "j < length (bilinearAdd w h hm x y ox oy v)"
  then have j: "j < length hm" by simp
  from nth_bilinearAdd[OF j, of x y w h ox oy v] assms j
  show "0 \<le> bilinearAdd w h hm x y ox oy v ! j"
    by (auto simp add: nonNegative_nth split: if_splits)
qed

lemma erodeOrDeposit_fst:
  "fst (erodeOrDeposit p w h hm cx cy ox oy cap nh sed) = hm \<or>
   (\<exists>v. fst (erodeOrDeposit p w h hm cx cy ox oy cap nh sed) = bilinearAdd w h hm cx cy ox oy v)"
  by (auto simp add: erodeOrDeposit_def Let_def)

lemma erodeOrDeposit_inv:
  "length (fst (erodeOrDeposit p w h hm cx cy ox oy cap nh sed)) = length hm \<and>
   (nonNegative hm \<longrightarrow> nonNegative (fst (erodeOrDeposit p w h hm cx cy ox oy cap nh sed)))"
  using erodeOrDeposit_fst[of p w h hm cx cy ox oy cap nh sed]
  by (auto simp add: nonNegative_bilinearAdd)

lemma settleDroplet_inv:
  "length (fst (settleDroplet p w h hm cx cy ox oy h0 nh d)) = length hm \<and>
   (nonNegative hm \<longrightarrow> nonNegative (fst (settleDroplet p w h hm cx cy ox oy h0 nh d)))"
  using erodeOrDeposit_inv by (simp add: settleDroplet_def Let_def)

lemma stepDroplet_inv:
  assumes wf: "int (length hm) = w * h"
  shows "\<exists>hm' d'. stepDroplet p w h hm d = Some (hm', d') \<and> length hm' = length hm \<and>
           (nonNegative hm \<longrightarrow> nonNegative hm')"
proof -
  obtain h0 where a: "bilinearInterp w h hm (d_x d) (d_y d) = Some h0"
    using bilinearInterp_defined[OF wf] by blast
  obtain g where b: "calcGradient w h hm (d_x d) (d_y d) = Some g"
    using calcGradient_defined[OF wf] by blast
  define d1 where "d1 = moveDroplet p (fst g) (snd g) d"
  obtain nh where c: "bilinearInterp w h hm (d_x d1) (d_y d1) = Some nh"
    using bilinearInterp_defined[OF wf] by blast
  show ?thesis
  proof (cases "outOfBounds w h d1")
    case True
    then show ?thesis by (simp add: stepDroplet_def Let_def a b d1_def[symmetric])
  next
    case False
    obtain hm' d' where r: "settleDroplet p w h hm \<lfloor>d_x d\<rfloor> \<lfloor>d_y d\<rfloor>
        (d_x d - of_int \<lfloor>d_x d\<rfloor>) (d_y d - of_int \<lfloor>d_y d\<rfloor>) h0 nh d1 = (hm', d')"
      by (cases "settleDroplet p w h hm \<lfloor>d_x d\<rfloor> \<lfloor>d_y d\<rfloor>
        (d_x d - of_int \<lfloor>d_x d\<rfloor>) (d_y d - of_int \<lfloor>d_y d\<rfloor>) h0 nh d1") auto
    have s: "stepDroplet p w h hm d = Some (hm', d')"
      using False by (simp add: stepDroplet_def Let_def a b d1_def[symmetric] c r)
    from settleDroplet_inv[of p w h hm "\<lfloor>d_x d\<rfloor>" "\<lfloor>d_y d\<rfloor>"
        "d_x d - of_int \<lfloor>d_x d\<rfloor>" "d_y d - of_int \<lfloor>d_y d\<rfloor>" h0 nh d1] r
    have "length hm' = length hm \<and> (nonNegative hm \<longrightarrow> nonNegative hm')" by simp
    with s show ?thesis by blast
  qed
qed

lemma stepLoop_inv:
  assumes wf: "int (length hm) = w * h"
  shows "\<exists>hm' ds'. stepLoop p w h b n hm ds = Some (hm', ds') \<and> length hm' = length hm \<and>
           length ds' = length ds \<and> (nonNegative hm \<longrightarrow> nonNegative hm')"
  using wf
proof (induction ds arbitrary: hm n)
  case Nil
  then show ?case by simp
next
  case (Cons d ds)
  show ?case
  proof (cases "n < b")
    case False
    then show ?thesis by simp
  next
    case nb: True
    show ?thesis
    proof (cases "alive d")
      case False
      from Cons.IH[OF Cons.prems, of n] obtain hm' ds' where
        "stepLoop p w h b n hm ds = Some (hm', ds')" "length hm' = length hm"
        "length ds' = length ds" "nonNegative hm \<longrightarrow> nonNegative hm'" by blast
      with nb False show ?thesis by simp
    next
      case True
      from stepDroplet_inv[OF Cons.prems, of p d] obtain hm1 d1 where
        s: "stepDroplet p w h hm d = Some (hm1, d1)" "length hm1 = length hm"
        "nonNegative hm \<longrightarrow> nonNegative hm1" by blast
      have "int (length hm1) = w * h" using s(2) Cons.prems by simp
      from Cons.IH[OF this, of "n + 1"] obtain hm' ds' where
        "stepLoop p w h b (n + 1) hm1 ds = Some (hm', ds')" "length hm' = length hm1"
        "length ds' = length ds" "nonNegative hm1 \<longrightarrow> nonNegative hm'" by blast
      with nb True s show ?thesis by simp
    qed
  qed
qed

lemma stepDroplets_inv:
  assumes "int (length (heightMap s)) = width s * height s" "droplets s \<noteq> None"
  shows "\<exists>r s'. stepDroplets b s = Inr (r, s') \<and>
           int (length (heightMap s')) = width s' * height s' \<and> droplets s' \<noteq> None \<and>
           (nonNegative (heightMap s) \<longrightarrow> nonNegative (heightMap s'))"
proof -
  from assms(2) obtain ds where ds: "droplets s = Some ds" by blast
  from stepLoop_inv[OF assms(1), of "params s" b 0 ds] obtain hm' ds' where
    "stepLoop (params s) (width s) (height s) b 0 (heightMap s) ds = Some (hm', ds')"
    "length hm' = length (heightMap s)" "nonNegative (heightMap s) \<longrightarrow> nonNegative hm'"
    by blast
  then show ?thesis using assms(1) by (simp add: stepDroplets_def ds)
qed

lemma stepMany_inv:
  assumes "int (length (heightMap s)) = width s * height s" "droplets s \<noteq> None"
    "nonNegative (heightMap s)"
  shows "\<exists>s'. stepMany bs s = Inr s' \<and> nonNegative (heightMap s')"
  using assms
proof (induction bs arbitrary: s)
  case Nil
  then show ?case by simp
next
  case (Cons b bs)
  from stepDroplets_inv[OF Cons.prems(1,2), of b] Cons.prems(3) obtain r s1 where
    s1: "stepDroplets b s = Inr (r, s1)" "int (length (heightMap s1)) = width s1 * height s1"
    "droplets s1 \<noteq> None" "nonNegative (heightMap s1)" by blast
  from Cons.IH[OF s1(2,3,4)] s1(1) show ?case by simp
qed

text \<open>
  Claim C1. On a simulator whose heightfield has \<open>width * height\<close> cells, all of them
  non-negative, and whose droplet pool exists, every sequence of \<open>stepDroplets\<close> calls
  completes and leaves a heightfield with no negative cell. \<open>bilinearAdd\<close> keeps the length
  of the heightfield, leaves each of the four cells it touches at a value of at least 0,
  and leaves every other cell at its old value.
\<close>

theorem heightfield_stays_nonnegative:
  "(int (length (heightMap s)) = width s * height s \<and> droplets s \<noteq> None \<and>
      nonNegative (heightMap s) \<longrightarrow>
      (\<exists>s'. stepMany bs s = Inr s' \<and> nonNegative (heightMap s')))
   \<and> length (bilinearAdd w h hm cx cy ox oy v) = length hm
   \<and> (\<forall>j < length hm.
        if cx \<ge> 0 \<and> cy \<ge> 0 \<and> cx < w - 1 \<and> cy < h - 1 \<and>
           int j \<in> {toIndex w cx cy, toIndex w (cx + 1) cy, toIndex w cx (cy + 1),
                     toIndex w (cx + 1) (cy + 1)}
        then 0 \<le> bilinearAdd w h hm cx cy ox oy v ! j
        else bilinearAdd w h hm cx cy ox oy v ! j = hm ! j)"
  using stepMany_inv[of s bs] nth_bilinearAdd[of _ hm cx cy w h ox oy v]
  by (simp del: not_None_eq)

text \<open>
  An instance: three batches on the 5 by 5 field with one droplet, and one
  \<open>bilinearAdd\<close> that removes height at the cell (1, 1).
\<close>

theorem heightfield_stays_nonnegative_witness:
  "int (length (heightMap bumpySim)) = width bumpySim * height bumpySim
   \<and> nonNegative (heightMap bumpySim)
   \<and> (\<exists>s'. stepMany [1, 1, 1] bumpySim = Inr s' \<and> nonNegative (heightMap s'))
   \<and> 0 \<le> bilinearAdd 5 5 bumpyField 1 1 (1/2) (1/2) (-1) ! 6
   \<and> bilinearAdd 5 5 bumpyField 1 1 (1/2) (1/2) (-1) ! 5 = bumpyField ! 5"
proof -
  have a: "int (length (heightMap bumpySim)) = width bumpySim * height bumpySim"
    "droplets bumpySim \<noteq> None" "nonNegative (heightMap bumpySim)"
    by (simp_all add: bumpySim_def bumpyField_def nonNegative_def)
  have l: "(6::nat) < length bumpyField" "(5::nat) < length bumpyField" by (simp_all add: bumpyField_def)
  from heightfield_stays_nonnegative[of bumpySim "[1, 1, 1]" 5 5 bumpyField 1 1 "1/2" "1/2" "-1"] a l
  show ?thesis by (simp add: toIndex_def)
qed

section \<open>Mass transfer of one deposit or erosion\<close>





























lemma mono_quarters: "mono quarters"
  by (auto simp add: mono_def quarters_def divide_right_mono floor_mono)


lemma quarters_int: "quarters (of_int k) = of_int k"
proof -
  have "\<lfloor>4 * real_of_int k + 1 / 2\<rfloor> = 4 * k" by linarith
  then show ?thesis by (simp add: quarters_def)
qed



section \<open>Droplet lifetime and pausing\<close>

text \<open>
  A droplet that is alive after a step has aged by one and is within every limit of the
  kill test.
\<close>

lemma stepDroplet_survivor:
  assumes "stepDroplet p w h hm d = Some (hm', d')" "alive d'"
  shows "lifetime d' = Suc (lifetime d) \<and> real (lifetime d') \<le> maxDropletLifetime p \<and>
         minVolume p \<le> water d' \<and> 0.01 \<le> speed d' \<and> \<not> outOfBounds w h d'"
proof -
  obtain h0 g where a: "bilinearInterp w h hm (d_x d) (d_y d) = Some h0"
    "calcGradient w h hm (d_x d) (d_y d) = Some g"
    using assms(1) by (auto simp add: stepDroplet_def Let_def split: option.splits)
  define d1 where "d1 = moveDroplet p (fst g) (snd g) d"
  have l: "lifetime d1 = lifetime d" by (simp add: d1_def moveDroplet_def Let_def)
  have x: "d_x (snd (settleDroplet p w h hm cx cy ox oy h0 nh d1)) = d_x d1"
    "d_y (snd (settleDroplet p w h hm cx cy ox oy h0 nh d1)) = d_y d1" for cx cy ox oy nh
    by (simp_all add: settleDroplet_def Let_def)
  show ?thesis
  proof (cases "outOfBounds w h d1")
    case True
    then show ?thesis using assms by (auto simp add: stepDroplet_def Let_def a d1_def[symmetric])
  next
    case False
    then obtain nh where n: "bilinearInterp w h hm (d_x d1) (d_y d1) = Some nh"
      using assms(1) by (auto simp add: stepDroplet_def Let_def a d1_def[symmetric] split: option.splits)
    have d': "d' = snd (settleDroplet p w h hm \<lfloor>d_x d\<rfloor> \<lfloor>d_y d\<rfloor>
        (d_x d - of_int \<lfloor>d_x d\<rfloor>) (d_y d - of_int \<lfloor>d_y d\<rfloor>) h0 nh d1)"
      using assms(1) False by (simp add: stepDroplet_def Let_def a d1_def[symmetric] n)
    have o: "\<not> outOfBounds w h d'" using False x unfolding d' outOfBounds_def by simp
    show ?thesis
      using assms(2) l o unfolding d'
      by (simp add: settleDroplet_def Let_def not_less split: if_splits)
  qed
qed

lemma rd_flatField: "rd flatField i = Some c \<Longrightarrow> c = 0"
proof -
  assume a: "rd flatField i = Some c"
  then have r: "0 \<le> i \<and> i < 25" by (simp add: rd_def flatField_def split: if_splits)
  then have "nat i < 25" by linarith
  then show ?thesis using a r by (simp add: rd_def flatField_def)
qed

lemma flat_interp: "bilinearInterp 5 5 flatField x y = Some 0"
proof -
  have "int (length flatField) = 5 * 5" by (simp add: flatField_def)
  from bilinearInterp_defined[OF this] obtain v where v: "bilinearInterp 5 5 flatField x y = Some v"
    by blast
  then have "v = 0"
    by (auto simp add: bilinearInterp_def Let_def split: if_splits option.splits dest!: rd_flatField)
  then show ?thesis using v by simp
qed

lemma flat_erodeOrDeposit:
  "0 \<le> cap \<Longrightarrow> 0 \<le> depositionRate p \<Longrightarrow>
     erodeOrDeposit p w h hm cx cy ox oy cap 0 0 = (hm, 0)"
  by (simp add: erodeOrDeposit_def Let_def not_less min_def mult_nonneg_nonneg)

lemma flat_gradient: "calcGradient 5 5 flatField x y = Some (0, 0)"
  by (simp add: calcGradient_def Let_def flat_interp)

lemma aged_move: "moveDroplet p 0 0 (agedDroplet k) = agedDroplet k"
  by (simp add: moveDroplet_def agedDroplet_def)

lemma aged_in_bounds: "\<not> outOfBounds 5 5 (agedDroplet k)"
  by (simp add: outOfBounds_def agedDroplet_def)

lemma pow_bounds:
  assumes "k \<le> 31"
  shows "(1/100::real) \<le> (49/50) ^ k" "(1/100::real) \<le> (99/100) ^ k"
proof -
  have k: "real k \<le> 31" using assms by simp
  have "1 + real k * (- (1/50)) \<le> (1 + (- (1/50))) ^ k"
    by (rule Bernoulli_inequality) simp
  then show "(1/100::real) \<le> (49/50) ^ k" using k by simp
  have "1 + real k * (- (1/100)) \<le> (1 + (- (1/100))) ^ k"
    by (rule Bernoulli_inequality) simp
  then show "(1/100::real) \<le> (99/100) ^ k" using k by simp
qed

lemma aged_settle:
  assumes "k \<le> 30"
  shows "settleDroplet defaultParams 5 5 flatField cx cy ox oy 0 0 (agedDroplet k) =
     (flatField, if k < 30 then agedDroplet (Suc k) else (agedDroplet (Suc k))\<lparr> alive := False \<rparr>)"
proof -
  have sp: "sqrt (max 0 (speed (agedDroplet k) * speed (agedDroplet k) + (0 - 0) * - 9.81)) = (49/50) ^ k"
    by (simp add: agedDroplet_def)
  have s0: "sediment (agedDroplet k) = 0" by (simp add: agedDroplet_def)
  have b: "\<not> (99/100) ^ Suc k < (1/100::real)" "\<not> (49/50) ^ Suc k < (1/100::real)"
    using pow_bounds[of "Suc k"] assms by (simp_all add: not_less del: power_Suc)
  have w: "water (agedDroplet k) * (1 - evaporationRate defaultParams) = (99/100) ^ Suc k"
    "(49/50) ^ k * (1 - friction defaultParams) = (49/50) ^ Suc k"
    "minVolume defaultParams = 1/100" "maxDropletLifetime defaultParams = 30"
    by (simp_all add: agedDroplet_def defaultParams_def)
  have l: "lifetime (agedDroplet k) + 1 = Suc k" by (simp add: agedDroplet_def)
  have t: "(0.01::real) = 1/100" by simp
  show ?thesis
  proof (cases "k < 30")
    case True
    then have "\<not> real (Suc k) > 30" by simp
    then show ?thesis
      unfolding settleDroplet_def Let_def sp s0 w l t
      using b True by (simp add: agedDroplet_def flat_erodeOrDeposit defaultParams_def del: power_Suc)
  next
    case False
    then have "real (Suc k) > 30" by simp
    then show ?thesis
      unfolding settleDroplet_def Let_def sp s0 w l t
      using b False by (simp add: agedDroplet_def flat_erodeOrDeposit defaultParams_def del: power_Suc)
  qed
qed

lemma aged_step:
  assumes "k \<le> 30"
  shows "stepDroplet defaultParams 5 5 flatField (agedDroplet k) =
     Some (flatField, if k < 30 then agedDroplet (Suc k) else (agedDroplet (Suc k))\<lparr> alive := False \<rparr>)"
  by (simp add: stepDroplet_def Let_def flat_interp flat_gradient aged_move aged_in_bounds
      aged_settle[OF assms])

lemma aged_alive: "alive (agedDroplet k)"
  by (simp add: agedDroplet_def)

lemma flat_stepDroplets:
  assumes "k < 30"
  shows "stepDroplets 1 (flatSim k) = Inr (True, flatSim (Suc k))"
  using assms
  by (simp add: stepDroplets_def flatSim_def aged_alive aged_step)

lemma flat_stepDroplets_last:
  "stepDroplets 1 (flatSim 30) =
     Inr (False, (flatSim 31)\<lparr> droplets := Some [(agedDroplet 31)\<lparr> alive := False \<rparr>] \<rparr>)"
  by (simp add: stepDroplets_def flatSim_def aged_alive aged_step)

lemma flat_stepMany:
  "k + n \<le> 30 \<Longrightarrow> stepMany (replicate n 1) (flatSim k) = Inr (flatSim (k + n))"
proof (induction n arbitrary: k)
  case 0
  then show ?case by simp
next
  case (Suc n)
  then have "k < 30" "Suc k + n \<le> 30" by simp_all
  then show ?case using Suc.IH[of "Suc k"] by (simp add: flat_stepDroplets)
qed

lemma flat_start:
  "ErosionSimulator 5 5 flatField defaultParams = Inr s \<Longrightarrow> start 1 False None sixth s = Inr (flatSim 0)"
  by (auto simp add: ErosionSimulator_def start_def resetDroplets_def createDroplet_def flatSim_def
      agedDroplet_def sixth_def defaultParams_def)

text \<open>
  Claim C5 fails on the code. Under the default parameters \<open>maxDropletLifetime\<close> is 30.
  The droplet that \<open>start\<close> places at (1.5, 1.5) of the flat field is still alive after 30
  steps, with lifetime 30; only the step after that, its 31st, kills it.
\<close>

theorem droplet_outlives_maxDropletLifetime:
  "maxDropletLifetime defaultParams = 30
   \<and> start 1 False None sixth (projr (ErosionSimulator 5 5 flatField defaultParams)) = Inr (flatSim 0)
   \<and> stepMany (replicate 30 1) (flatSim 0) = Inr (flatSim 30)
   \<and> droplets (flatSim 30) = Some [agedDroplet 30]
   \<and> alive (agedDroplet 30) \<and> lifetime (agedDroplet 30) = 30
   \<and> stepDroplets 1 (flatSim 30) =
       Inr (False, (flatSim 31)\<lparr> droplets := Some [(agedDroplet 31)\<lparr> alive := False \<rparr>] \<rparr>)"
  using flat_stepMany[of 0 30] flat_stepDroplets_last flat_start
  by (simp add: aged_alive flatSim_def agedDroplet_def defaultParams_def ErosionSimulator_def)

text \<open>
  \<open>stepDroplets\<close> never reads \<open>dropletsActive\<close>: stepping a paused simulator does what
  stepping the running one does.
\<close>

lemma stepDroplets_ignores_pause:
  "stepDroplets b (pause s) =
     (case stepDroplets b s of Inl e \<Rightarrow> Inl e | Inr (r, s') \<Rightarrow> Inr (r, pause s'))"
  by (simp add: stepDroplets_def pause_def split: option.splits)

text \<open>
  Claim C4 fails on the code. After \<open>pause\<close> the flag \<open>dropletsActive\<close> is false, and a
  \<open>stepDroplets\<close> call still advances the droplet: its lifetime goes from 0 to 1 and its
  water from 1 to 0.99.
\<close>

theorem pause_does_not_stop_stepping:
  "dropletsActive (pause (flatSim 0)) = Some False
   \<and> stepDroplets 1 (pause (flatSim 0)) = Inr (True, pause (flatSim 1))
   \<and> droplets (pause (flatSim 0)) = Some [agedDroplet 0]
   \<and> droplets (pause (flatSim 1)) = Some [agedDroplet 1]
   \<and> lifetime (agedDroplet 0) = 0 \<and> lifetime (agedDroplet 1) = 1
   \<and> water (agedDroplet 0) = 1 \<and> water (agedDroplet 1) = 0.99"
  using aged_step[of 0]
  by (simp add: pause_def stepDroplets_def flatSim_def aged_alive agedDroplet_def)

section \<open>Starting a simulation\<close>

text \<open>
  Claim C9 fails at the upper bound. On a 4 by 4 grid the draw 3/4, which lies in [0, 1),
  gives the starting coordinate 2.5, which is greater than \<open>width - 2 = 2\<close>.
\<close>

theorem start_position_counterexample:
  "0 \<le> threeQuarters 0 \<and> threeQuarters 0 < 1
   \<and> start 1 False None threeQuarters smallSim
       = Inr (smallSim\<lparr> droplets := Some [lateDroplet], dropletsActive := Some True \<rparr>)
   \<and> d_x lateDroplet = 2.5 \<and> width smallSim = 4
   \<and> \<not> d_x lateDroplet \<le> of_int (width smallSim) - 2"
  by (simp add: start_def resetDroplets_def createDroplet_def smallSim_def lateDroplet_def
      threeQuarters_def defaultParams_def)

text \<open>
  \<open>start\<close> is \<open>startRounded\<close> when nothing rounds.
\<close>

lemma startRounded_exact: "startRounded (\<lambda>x. x) n r i rnd s = start n r i rnd s"
  by (simp add: startRounded_def start_def resetDropletsRounded_def resetDroplets_def
      createDropletRounded_def createDroplet_def)

lemma createDropletRounded_range:
  assumes w: "2 \<le> width s" and h: "2 \<le> height s"
    and r: "0 \<le> rx" "rx < 1" "0 \<le> ry" "ry < 1"
    and m: "mono fl" and f: "fl 0 = 0" "fl 1 = 1"
      "fl (of_int (width s) - 2) = of_int (width s) - 2"
      "fl (of_int (width s) - 1) = of_int (width s) - 1"
      "fl (of_int (height s) - 2) = of_int (height s) - 2"
      "fl (of_int (height s) - 1) = of_int (height s) - 1"
  shows "1 \<le> d_x (createDropletRounded fl s rx ry) \<and>
         d_x (createDropletRounded fl s rx ry) \<le> of_int (width s) - 1 \<and>
         1 \<le> d_y (createDropletRounded fl s rx ry) \<and>
         d_y (createDropletRounded fl s rx ry) \<le> of_int (height s) - 1"
proof -
  have bound: "1 \<le> fl (fl (r * fl (of_int k - 2)) + 1) \<and> fl (fl (r * fl (of_int k - 2)) + 1) \<le> of_int k - 1"
    if k: "2 \<le> k" and r: "0 \<le> r" "r < 1"
      and fk: "fl (of_int k - 2) = of_int k - 2" "fl (of_int k - 1) = of_int k - 1"
    for r :: real and k :: int
  proof -
    have k0: "0 \<le> real_of_int k - 2" using k by simp
    have p: "0 \<le> r * (of_int k - 2)" "r * (of_int k - 2) \<le> of_int k - 2"
      using r k0 by (simp_all add: mult_left_le_one_le)
    have "fl 0 \<le> fl (r * (of_int k - 2))" "fl (r * (of_int k - 2)) \<le> fl (of_int k - 2)"
      using p m by (auto dest: monoD)
    then have t: "0 \<le> fl (r * (of_int k - 2))" "fl (r * (of_int k - 2)) \<le> of_int k - 2"
      using f(1) fk(1) by simp_all
    have "fl 1 \<le> fl (fl (r * (of_int k - 2)) + 1)"
      "fl (fl (r * (of_int k - 2)) + 1) \<le> fl (of_int k - 1)"
      using t m by (auto intro!: monoD[of fl])
    then show ?thesis using f(2) fk by simp
  qed
  show ?thesis
    using bound[OF w r(1,2) f(3,4)] bound[OF h r(3,4) f(5,6)]
    by (simp add: createDropletRounded_def)
qed

text \<open>
  Claim C9 as amended. On a grid of width and height at least 2, for all random draws in
  [0, 1) and for every rounding of the doubles that is monotone and leaves the integers 0,
  1, \<open>width - 2\<close>, \<open>width - 1\<close>, \<open>height - 2\<close> and \<open>height - 1\<close> unchanged, \<open>start\<close> creates
  \<open>numDroplets\<close> droplets, each at a position with \<open>1 \<le> x \<le> width - 1\<close> and
  \<open>1 \<le> y \<le> height - 1\<close>, with zero direction, speed \<open>initialSpeed\<close>, water
  \<open>initialVolume\<close>, sediment 0, lifetime 0 and alive.
\<close>

theorem start_positions_rounded:
  assumes "2 \<le> width s" "2 \<le> height s" and rnd: "\<forall>i. 0 \<le> rnd i \<and> rnd i < 1"
    and "mono fl" "fl 0 = 0" "fl 1 = 1"
      "fl (of_int (width s) - 2) = of_int (width s) - 2"
      "fl (of_int (width s) - 1) = of_int (width s) - 1"
      "fl (of_int (height s) - 2) = of_int (height s) - 2"
      "fl (of_int (height s) - 1) = of_int (height s) - 1"
  shows "\<exists>s' ds. startRounded fl numDroplets resetHeightmap initialHeightMap rnd s = Inr s' \<and>
           droplets s' = Some ds \<and> length ds = nat numDroplets \<and>
           (\<forall>d \<in> set ds.
              1 \<le> d_x d \<and> d_x d \<le> of_int (width s) - 1 \<and>
              1 \<le> d_y d \<and> d_y d \<le> of_int (height s) - 1 \<and>
              d_dx d = 0 \<and> d_dy d = 0 \<and>
              speed d = initialSpeed (params s) \<and> water d = initialVolume (params s) \<and>
              sediment d = 0 \<and> lifetime d = 0 \<and> alive d)"
proof -
  define s0 where "s0 = (case initialHeightMap of
               Some hm0 \<Rightarrow> if resetHeightmap then s\<lparr> heightMap := hm0 \<rparr> else s
             | None \<Rightarrow> s)"
  have g: "width s0 = width s" "height s0 = height s" "params s0 = params s"
    by (simp_all add: s0_def split: option.splits)
  have r: "\<And>i. 1 \<le> d_x (createDropletRounded fl s0 (rnd (2 * i)) (rnd (2 * i + 1))) \<and>
      d_x (createDropletRounded fl s0 (rnd (2 * i)) (rnd (2 * i + 1))) \<le> of_int (width s) - 1 \<and>
      1 \<le> d_y (createDropletRounded fl s0 (rnd (2 * i)) (rnd (2 * i + 1))) \<and>
      d_y (createDropletRounded fl s0 (rnd (2 * i)) (rnd (2 * i + 1))) \<le> of_int (height s) - 1"
    using createDropletRounded_range[of s0 _ _ fl] assms g by simp
  have c: "\<And>rx ry. d_dx (createDropletRounded fl s0 rx ry) = 0 \<and>
      d_dy (createDropletRounded fl s0 rx ry) = 0 \<and>
      speed (createDropletRounded fl s0 rx ry) = initialSpeed (params s) \<and>
      water (createDropletRounded fl s0 rx ry) = initialVolume (params s) \<and>
      sediment (createDropletRounded fl s0 rx ry) = 0 \<and>
      lifetime (createDropletRounded fl s0 rx ry) = 0 \<and>
      alive (createDropletRounded fl s0 rx ry)"
    by (simp add: createDropletRounded_def g)
  show ?thesis
    unfolding startRounded_def s0_def[symmetric] resetDropletsRounded_def
    using r c by auto
qed

text \<open>
  An instance: two droplets on the 4 by 4 grid with every operation rounded to the nearest
  quarter. The draw 0.99 gives the product 1.98, which rounds to 2, and the coordinate
  \<open>3 = width - 1\<close>: the upper bound is reached.
\<close>

theorem start_positions_rounded_witness:
  "2 \<le> width smallSim \<and> 2 \<le> height smallSim \<and> 0 \<le> nearOne 0 \<and> nearOne 0 < 1
   \<and> mono quarters \<and> quarters 0 = 0 \<and> quarters 1 = 1 \<and> quarters 2 = 2 \<and> quarters 3 = 3
   \<and> (\<exists>s' ds. startRounded quarters 2 False None nearOne smallSim = Inr s' \<and>
           droplets s' = Some ds \<and> length ds = 2 \<and>
           list_all (\<lambda>d. 1 \<le> d_x d \<and> d_x d \<le> 3 \<and> 1 \<le> d_y d \<and> d_y d \<le> 3 \<and> alive d) ds)
   \<and> d_x (createDropletRounded quarters smallSim (nearOne 0) (nearOne 1)) = 3"
proof -
  have a: "2 \<le> width smallSim" "2 \<le> height smallSim" by (simp_all add: smallSim_def)
  have b: "\<forall>i. 0 \<le> nearOne i \<and> nearOne i < 1" by (simp add: nearOne_def)
  have c: "0 \<le> nearOne 0 \<and> nearOne 0 < 1" by (simp add: nearOne_def)
  have q: "quarters 0 = 0" "quarters 1 = 1" "quarters 2 = 2" "quarters 3 = 3"
    using quarters_int[of 0] quarters_int[of 1] quarters_int[of 2] quarters_int[of 3] by simp_all
  have w: "quarters (of_int (width smallSim) - 2) = of_int (width smallSim) - 2"
    "quarters (of_int (width smallSim) - 1) = of_int (width smallSim) - 1"
    "quarters (of_int (height smallSim) - 2) = of_int (height smallSim) - 2"
    "quarters (of_int (height smallSim) - 1) = of_int (height smallSim) - 1"
    using q by (simp_all add: smallSim_def)
  from start_positions_rounded[OF a b mono_quarters q(1,2) w, of 2 False None]
  have e: "\<exists>s' ds. startRounded quarters 2 False None nearOne smallSim = Inr s' \<and>
           droplets s' = Some ds \<and> length ds = 2 \<and>
           list_all (\<lambda>d. 1 \<le> d_x d \<and> d_x d \<le> 3 \<and> 1 \<le> d_y d \<and> d_y d \<le> 3 \<and> alive d) ds"
    by (simp add: list_all_iff) (simp add: smallSim_def, blast)
  have "quarters (99 / 50) = 2" by (simp add: quarters_def)
  then have x: "d_x (createDropletRounded quarters smallSim (nearOne 0) (nearOne 1)) = 3"
    using q by (simp add: createDropletRounded_def smallSim_def nearOne_def)
  show ?thesis using a c e q x mono_quarters by blast
qed

section \<open>Configuration errors\<close>

text \<open>
  Claim C7 fails for the erosion engine. With grid dimensions zero and an empty heightfield
  the constructor returns a simulator, and \<open>start\<close> returns normally with a pool of two
  droplets.
\<close>

theorem malformed_dimensions_accepted:
  "ErosionSimulator 0 0 [] defaultParams = Inr emptySim
   \<and> \<not> isl (start 2 False None sixth emptySim)
   \<and> map_option length (droplets (projr (start 2 False None sixth emptySim))) = Some 2"
  by (simp add: ErosionSimulator_def emptySim_def start_def resetDroplets_def)

text \<open>
  With grid dimensions that are not positive the loops of \<open>generateTerrainInternal\<close> do
  not run and the smoothing finds no neighbour: the zero-initialised grid is returned.
\<close>

lemma gridCells_empty: "gw \<le> 0 \<Longrightarrow> gridCells gw gh = []"
  by (simp add: gridCells_def)

lemma those_map_Some:
  assumes "\<And>x. x \<in> set xs \<Longrightarrow> \<exists>v. f x = Some v"
  shows "\<exists>ys. those (map f xs) = Some ys \<and> length ys = length xs"
  using assms
proof (induction xs)
  case Nil
  then show ?case by simp
next
  case (Cons a xs)
  then obtain v ys where "f a = Some v" "those (map f xs) = Some ys" "length ys = length xs"
    by (metis list.set_intros(1,2))
  then show ?case by simp
qed

lemma smoothCell_no_grid:
  assumes "mapWidth \<le> 0" "i < length cur"
  shows "\<exists>v. smoothCell lrp cur mapWidth mapHeight factor i = Some v"
proof -
  have k: "foldl (\<lambda>acc k.
                      case acc of None \<Rightarrow> None
                      | Some st \<Rightarrow>
                          let nx = x + fst k; ny = y + fst (snd k)
                          in if nx \<ge> 0 \<and> nx < mapWidth \<and> ny \<ge> 0 \<and> ny < mapHeight then
                               (case rd cur (ny * mapWidth + nx) of None \<Rightarrow> None
                                | Some nz \<Rightarrow> Some (fst st + nz * snd (snd k), snd st + snd (snd k)))
                             else Some st)
                    (Some st0) ks = Some st0" for x y st0 and ks :: "(int \<times> int \<times> real) list"
    using assms(1) by (induction ks) (auto simp add: Let_def)
  have "rd cur (int i) = Some (cur ! i)" using assms(2) by (simp add: rd_def)
  then show ?thesis by (simp add: smoothCell_def Let_def k)
qed

lemma smoothPass_no_grid:
  assumes "mapWidth \<le> 0"
  shows "\<exists>ys. smoothPass lrp mapWidth mapHeight factor cur = Some ys \<and> length ys = length cur"
proof -
  have "\<exists>ys. those (map (smoothCell lrp cur mapWidth mapHeight factor) [0 ..< length cur]) = Some ys
      \<and> length ys = length [0 ..< length cur]"
    by (rule those_map_Some) (simp add: smoothCell_no_grid[OF assms])
  then show ?thesis by (simp add: smoothPass_def)
qed

lemma smoothing_no_grid:
  assumes "mapWidth \<le> 0"
  shows "\<exists>ys. applySmoothingInternal lrp zs mapWidth mapHeight its fac = Some ys \<and>
           length ys = length zs"
proof -
  have "\<exists>ys. foldl (\<lambda>acc iter. case acc of None \<Rightarrow> None
                           | Some cur \<Rightarrow> smoothPass lrp mapWidth mapHeight factor cur)
           (Some zs) ns = Some ys \<and> length ys = length zs" for factor and ns :: "nat list"
  proof (induction ns arbitrary: zs)
    case Nil
    then show ?case by simp
  next
    case (Cons a ns)
    obtain ys where y: "smoothPass lrp mapWidth mapHeight factor zs = Some ys" "length ys = length zs"
      using smoothPass_no_grid[OF assms] by blast
    from Cons[of ys] y show ?case by simp
  qed
  then show ?thesis by (simp add: applySmoothingInternal_def Let_def)
qed

lemma generate_no_grid:
  assumes "meshResolution p \<le> - 1"
    and "3 * ((meshResolution p + 1) * (meshResolution p + 1)) \<le> int (maxArrayLength nb)"
  shows "\<exists>hm. generateTerrainInternal nb p =
            Inr \<lparr> heightmap = hm, gridWidth = meshResolution p + 1,
                  gridHeight = meshResolution p + 1 \<rparr> \<and>
          length hm = nat ((meshResolution p + 1) * (meshResolution p + 1))"
proof -
  let ?g = "meshResolution p + 1"
  have g: "?g \<le> 0" using assms(1) by simp
  have c: "gridCells ?g ?g = []" using g by (rule gridCells_empty)
  have q: "0 \<le> ?g * ?g" by simp
  have n: "\<not> (?g * ?g < 0 \<or> int (maxArrayLength nb) < ?g * ?g
            \<or> ?g * ?g * 3 < 0 \<or> int (maxArrayLength nb) < ?g * ?g * 3)"
    using q assms(2) by linarith
  have f: "fillHeights nb pts p dx dy ?g ?g = Some (replicate (nat (?g * ?g)) 0)" for pts dx dy
    by (simp add: fillHeights_def c)
  obtain ys where y: "applySmoothingInternal (lerp nb) (replicate (nat (?g * ?g)) 0) ?g ?g
      (smoothIterations p) (smoothFactor p) = Some ys" "length ys = nat (?g * ?g)"
    using smoothing_no_grid[OF g, of "lerp nb" "replicate (nat (?g * ?g)) 0" ?g
        "smoothIterations p" "smoothFactor p"]
    by (auto simp only: length_replicate)
  show ?thesis
    unfolding generateTerrainInternal_def Let_def if_not_P[OF n] f c
    using y by simp
qed

lemma generate_empty_grid:
  assumes "meshResolution p = - 1"
  shows "generateTerrainInternal nb p = Inr \<lparr> heightmap = [], gridWidth = 0, gridHeight = 0 \<rparr>"
proof -
  from generate_no_grid[of p nb] assms show ?thesis by auto
qed

lemma generate_throws:
  "generateTerrainInternal nb p \<noteq> Inl TypeError \<and>
   (generateTerrainInternal nb p = Inl RangeError \<longleftrightarrow>
      int (maxArrayLength nb) < 3 * ((meshResolution p + 1) * (meshResolution p + 1)))"
proof -
  let ?g = "meshResolution p + 1"
  have q: "0 \<le> ?g * ?g" by simp
  have e: "(?g * ?g < 0 \<or> int (maxArrayLength nb) < ?g * ?g
            \<or> ?g * ?g * 3 < 0 \<or> int (maxArrayLength nb) < ?g * ?g * 3)
        \<longleftrightarrow> int (maxArrayLength nb) < 3 * (?g * ?g)"
    using q by linarith
  show ?thesis
    unfolding generateTerrainInternal_def Let_def e
    by (simp split: option.splits)
qed

text \<open>
  Claim C7 as amended. Neither \<open>generateTerrainInternal\<close> nor the erosion engine validates
  its parameters, and neither reports a configuration error. Whatever the parameters and
  the noise backend, the only exception of \<open>generateTerrainInternal\<close> is the \<open>RangeError\<close>
  of the engine, thrown exactly when the three values per vertex of the grid are more than
  the engine allocates. For a mesh resolution of -1 it allocates the zero-length grid and
  returns it with width and height 0, and for a smaller mesh resolution, within what the
  engine allocates, it returns a grid of \<open>(meshResolution + 1)\<^sup>2\<close> cells with the negative
  width and height. The constructor and \<open>start\<close> complete normally for every
  width, height, heightfield and parameter record, and \<open>start\<close> leaves a pool of
  \<open>numDroplets\<close> droplets (none when \<open>numDroplets\<close> is negative).
\<close>

theorem no_configuration_error:
  "generateTerrainInternal nb p \<noteq> Inl TypeError
   \<and> (generateTerrainInternal nb p = Inl RangeError \<longleftrightarrow>
        int (maxArrayLength nb) < 3 * ((meshResolution p + 1) * (meshResolution p + 1)))
   \<and> (meshResolution p = - 1 \<longrightarrow>
        generateTerrainInternal nb p = Inr \<lparr> heightmap = [], gridWidth = 0, gridHeight = 0 \<rparr>)
   \<and> (meshResolution p < - 1 \<and>
        3 * ((meshResolution p + 1) * (meshResolution p + 1)) \<le> int (maxArrayLength nb) \<longrightarrow>
        (\<exists>hm. generateTerrainInternal nb p =
                 Inr \<lparr> heightmap = hm, gridWidth = meshResolution p + 1,
                       gridHeight = meshResolution p + 1 \<rparr> \<and>
               length hm = nat ((meshResolution p + 1) * (meshResolution p + 1))))
   \<and> (\<exists>s. ErosionSimulator w h hm0 ep = Inr s \<and>
         (\<exists>s'. start numDroplets resetHeightmap initialHeightMap rnd s = Inr s' \<and>
            map_option length (droplets s') = Some (nat numDroplets)))"
proof -
  have a: "generateTerrainInternal nb p \<noteq> Inl TypeError
   \<and> (generateTerrainInternal nb p = Inl RangeError \<longleftrightarrow>
        int (maxArrayLength nb) < 3 * ((meshResolution p + 1) * (meshResolution p + 1)))"
    by (rule generate_throws)
  have b: "meshResolution p = - 1 \<longrightarrow>
        generateTerrainInternal nb p = Inr \<lparr> heightmap = [], gridWidth = 0, gridHeight = 0 \<rparr>"
    using generate_empty_grid by blast
  have c: "meshResolution p < - 1 \<and>
        3 * ((meshResolution p + 1) * (meshResolution p + 1)) \<le> int (maxArrayLength nb) \<longrightarrow>
        (\<exists>hm. generateTerrainInternal nb p =
                 Inr \<lparr> heightmap = hm, gridWidth = meshResolution p + 1,
                       gridHeight = meshResolution p + 1 \<rparr> \<and>
               length hm = nat ((meshResolution p + 1) * (meshResolution p + 1)))"
    using generate_no_grid[of p nb] by simp
  have d: "\<exists>s. ErosionSimulator w h hm0 ep = Inr s \<and>
         (\<exists>s'. start numDroplets resetHeightmap initialHeightMap rnd s = Inr s' \<and>
            map_option length (droplets s') = Some (nat numDroplets))"
    by (simp add: ErosionSimulator_def start_def resetDroplets_def)
  show ?thesis using a b c d by blast
qed

text \<open>
  Instances: the mesh resolutions -1 and -3 with the default parameters, and the default
  mesh resolution 512 on an engine that allocates no array longer than 100.
\<close>

theorem no_configuration_error_witness:
  "meshResolution emptyGridParams = - 1
   \<and> generateTerrainInternal stillNoise emptyGridParams
       = Inr \<lparr> heightmap = [], gridWidth = 0, gridHeight = 0 \<rparr>
   \<and> meshResolution negativeGridParams < - 1
   \<and> 3 * ((meshResolution negativeGridParams + 1) * (meshResolution negativeGridParams + 1))
         \<le> int (maxArrayLength stillNoise)
   \<and> (\<exists>hm. generateTerrainInternal stillNoise negativeGridParams
               = Inr \<lparr> heightmap = hm, gridWidth = - 2, gridHeight = - 2 \<rparr> \<and> length hm = 4)
   \<and> generateTerrainInternal stillNoise negativeGridParams \<noteq> Inl RangeError
   \<and> generateTerrainInternal smallEngine HeightmapDefaultParams = Inl RangeError"
proof -
  have e: "meshResolution emptyGridParams = - 1" by (simp add: emptyGridParams_def)
  have n: "meshResolution negativeGridParams = - 3" by (simp add: negativeGridParams_def)
  have l: "maxArrayLength stillNoise = 4294967295" by (simp add: stillNoise_def)
  have m: "maxArrayLength smallEngine = 100" "meshResolution HeightmapDefaultParams = 512"
    by (simp_all add: smallEngine_def HeightmapDefaultParams_def)
  from no_configuration_error[of stillNoise emptyGridParams 0 0 "[]" defaultParams 0 False None sixth] e
  have a: "generateTerrainInternal stillNoise emptyGridParams
       = Inr \<lparr> heightmap = [], gridWidth = 0, gridHeight = 0 \<rparr>" by blast
  from no_configuration_error[of stillNoise negativeGridParams 0 0 "[]" defaultParams 0 False None sixth]
  have b: "(\<exists>hm. generateTerrainInternal stillNoise negativeGridParams
               = Inr \<lparr> heightmap = hm, gridWidth = - 2, gridHeight = - 2 \<rparr> \<and> length hm = 4)
      \<and> generateTerrainInternal stillNoise negativeGridParams \<noteq> Inl RangeError"
    by (simp add: n l)
  from no_configuration_error[of smallEngine HeightmapDefaultParams 0 0 "[]" defaultParams 0 False None sixth]
  have c: "generateTerrainInternal smallEngine HeightmapDefaultParams = Inl RangeError"
    by (simp add: m)
  show ?thesis using e a b c by (simp add: n l)
qed

section \<open>Flow accumulation at the sinks\<close>

text \<open>
  Claim C3 fails on the code. On the 3 by 3 slope the only sink is cell 0, and its flow is
  4, not the 9 cells of the grid: cells are visited in ascending height, so a cell passes
  its flow on before the higher cells have passed theirs to it.
\<close>

theorem flow_at_sinks_not_cell_count:
  "computeFlowMap slopeField 3 3 = Inr [4, 3, 1, 3, 2, 1, 1, 1, 1]
   \<and> downslopeMap slopeField 3 3 = [0, 0, 1, 0, 0, 1, 3, 3, 4]
   \<and> sinkCells slopeField 3 3 = [0]
   \<and> sinkFlowTotal [4, 3, 1, 3, 2, 1, 1, 1, 1] (sinkCells slopeField 3 3) = 4
   \<and> (4::real) \<noteq> 3 * 3"
  by code_simp

end
